theory Spec2Isabelle
  imports Complex_Main "HOL-Library.Char_ord" "HOL-Library.List_Lexorder"
begin

section \<open>Python values used by the websocket bridge\<close>

text \<open>
  The bridge lives in \<^verbatim>\<open>abstract_salad_bar/websocket.py\<close>. Exceptions are values of
  \<open>error\<close>; a call that raises returns \<open>Inl\<close>. The values \<^verbatim>\<open>json.loads\<close> produces
  (and \<^verbatim>\<open>json.dumps\<close> consumes) are the datatype \<open>json\<close>: a Python dict is an
  association list read with \<open>map_of\<close>, a finite float is a real.
\<close>

datatype error =
    KeyError | ValueError | TypeError | AttributeError
  | UnicodeDecodeError | RequestException | ConnectionClosed

datatype json =
    JNull | JBool bool | JInt int | JFloat real | JStr string
  | JArr "json list" | JObj "(string \<times> json) list"

text \<open>Python truth value of a decoded JSON value (\<^verbatim>\<open>if x\<close>).\<close>

fun truthy :: "json \<Rightarrow> bool" where
  "truthy JNull = False"
| "truthy (JBool b) = b"
| "truthy (JInt i) = (i \<noteq> 0)"
| "truthy (JFloat r) = (r \<noteq> 0)"
| "truthy (JStr s) = (s \<noteq> [])"
| "truthy (JArr xs) = (xs \<noteq> [])"
| "truthy (JObj kvs) = (kvs \<noteq> [])"

text \<open>\<^verbatim>\<open>message[key]\<close>: KeyError on a dict without the key, TypeError on a value
  that cannot be indexed by a string.\<close>

fun subscript :: "json \<Rightarrow> string \<Rightarrow> error + json" where
  "subscript (JObj kvs) k = (case map_of kvs k of None \<Rightarrow> Inl KeyError | Some v \<Rightarrow> Inr v)"
| "subscript _ k = Inl TypeError"

text \<open>\<^verbatim>\<open>hasattr(message, 'get')\<close>: among the values of \<^verbatim>\<open>json.loads\<close> only a dict
  has a \<^verbatim>\<open>get\<close> attribute.\<close>

fun has_get :: "json \<Rightarrow> bool" where
  "has_get (JObj kvs) = True"
| "has_get _ = False"

text \<open>\<^verbatim>\<open>message.get(key)\<close> on a dict: \<^verbatim>\<open>None\<close> when the key is missing.\<close>

fun dict_get :: "json \<Rightarrow> string \<Rightarrow> json" where
  "dict_get (JObj kvs) k = (case map_of kvs k of None \<Rightarrow> JNull | Some v \<Rightarrow> v)"
| "dict_get _ k = JNull"

subsection \<open>String methods\<close>

definition lstrip :: "string \<Rightarrow> char \<Rightarrow> string" where
  "lstrip s c = dropWhile (\<lambda>x. x = c) s"

definition rstrip :: "string \<Rightarrow> char \<Rightarrow> string" where
  "rstrip s c = rev (dropWhile (\<lambda>x. x = c) (rev s))"

definition startswith :: "string \<Rightarrow> string \<Rightarrow> bool" where
  "startswith s pre = (take (length pre) s = pre)"

definition endswith :: "string \<Rightarrow> string \<Rightarrow> bool" where
  "endswith s suf = (length suf \<le> length s \<and> drop (length s - length suf) s = suf)"

primrec str_find :: "string \<Rightarrow> char \<Rightarrow> nat option" where
  "str_find [] c = None"
| "str_find (x # xs) c = (if x = c then Some 0 else map_option Suc (str_find xs c))"

definition str_find_from :: "string \<Rightarrow> char \<Rightarrow> nat \<Rightarrow> nat option" where
  "str_find_from s c start = map_option (\<lambda>i. start + i) (str_find (drop start s) c)"

definition str_rfind :: "string \<Rightarrow> char \<Rightarrow> nat option" where
  "str_rfind s c = map_option (\<lambda>i. length s - Suc i) (str_find (rev s) c)"

text \<open>\<^verbatim>\<open>if c in s: a, b = s.split(c, 1)\<close>, with \<open>b\<close> left empty otherwise.\<close>

definition split1 :: "string \<Rightarrow> char \<Rightarrow> string \<times> string" where
  "split1 s c = (case str_find s c of None \<Rightarrow> (s, []) | Some i \<Rightarrow> (take i s, drop (Suc i) s))"

definition lower_char :: "char \<Rightarrow> char" where
  "lower_char c =
     (case map_of (zip ''ABCDEFGHIJKLMNOPQRSTUVWXYZ'' ''abcdefghijklmnopqrstuvwxyz'') c of
        None \<Rightarrow> c | Some d \<Rightarrow> d)"

definition str_lower :: "string \<Rightarrow> string" where
  "str_lower s = map lower_char s"

fun join :: "string \<Rightarrow> string list \<Rightarrow> string" where
  "join sep [] = []"
| "join sep [x] = x"
| "join sep (x # y # ys) = x @ sep @ join sep (y # ys)"

subsection \<open>The standard library's urlparse\<close>

text \<open>
  \<^verbatim>\<open>parse_path\<close> calls \<^verbatim>\<open>urllib.parse.urlparse\<close>. The source uses \<^verbatim>\<open>async def\<close>
  and catches \<^verbatim>\<open>concurrent.futures.CancelledError\<close> for cancelled asyncio tasks, which
  places it on CPython 3.5 to 3.7; the functions below follow \<^verbatim>\<open>urlsplit\<close>,
  \<^verbatim>\<open>_splitnetloc\<close>, \<^verbatim>\<open>_splitparams\<close> and \<^verbatim>\<open>urlparse\<close> of the library of
  CPython 3.5, on \<^verbatim>\<open>str\<close> arguments. A \<^verbatim>\<open>str\<close> is the list of the bytes of its
  UTF-8 encoding, whose order is the order of the code points.
\<close>

record url =
  url_scheme :: string
  url_netloc :: string
  url_path :: string
  url_params :: string
  url_query :: string
  url_fragment :: string

definition scheme_chars :: string where
  "scheme_chars = ''abcdefghijklmnopqrstuvwxyzABCDEFGHIJKLMNOPQRSTUVWXYZ0123456789+-.''"

definition uses_params :: "string list" where
  "uses_params = ['''', ''ftp'', ''hdl'', ''prospero'', ''http'', ''imap'', ''https'',
     ''shttp'', ''rtsp'', ''rtspu'', ''sip'', ''sips'', ''mms'', ''sftp'', ''tel'']"

definition splitnetloc :: "string \<Rightarrow> nat \<Rightarrow> string \<times> string" where
  "splitnetloc u start =
     (let delim = fold (\<lambda>c d. case str_find_from u c start of None \<Rightarrow> d | Some w \<Rightarrow> min d w)
                       ''/?#'' (length u)
      in (take (delim - start) (drop start u), drop delim u))"

text \<open>The part of \<^verbatim>\<open>urlsplit\<close> after the scheme has been decided.\<close>

definition split_rest :: "string \<Rightarrow> string \<Rightarrow> error + url" where
  "split_rest sch u =
     (let (netloc, u1) = (if take 2 u = ''//'' then splitnetloc u 2 else ([], u)) in
      if (CHR ''['' \<in> set netloc \<and> CHR '']'' \<notin> set netloc)
         \<or> (CHR '']'' \<in> set netloc \<and> CHR ''['' \<notin> set netloc)
      then Inl ValueError
      else
        let (u2, fragment) = split1 u1 CHR ''#'';
            (u3, query) = split1 u2 CHR ''?''
        in Inr \<lparr>url_scheme = sch, url_netloc = netloc, url_path = u3, url_params = [],
                 url_query = query, url_fragment = fragment\<rparr>)"

definition urlsplit :: "string \<Rightarrow> error + url" where
  "urlsplit u =
     (case str_find u CHR '':'' of
        None \<Rightarrow> split_rest [] u
      | Some i \<Rightarrow>
          if i > 0 then
            if take i u = ''http'' then split_rest (str_lower (take i u)) (drop (Suc i) u)
            else if list_all (\<lambda>c. c \<in> set scheme_chars) (take i u) then
              (let rest = drop (Suc i) u in
               if rest = [] \<or> list_ex (\<lambda>c. c \<notin> set ''0123456789'') rest
               then split_rest (str_lower (take i u)) rest
               else split_rest [] u)
            else split_rest [] u
          else split_rest [] u)"

definition splitparams :: "string \<Rightarrow> string \<times> string" where
  "splitparams u =
     (case str_rfind u CHR ''/'' of
        Some k \<Rightarrow>
          (case str_find_from u CHR '';'' k of
             None \<Rightarrow> (u, [])
           | Some i \<Rightarrow> (take i u, drop (Suc i) u))
      | None \<Rightarrow>
          (case str_find u CHR '';'' of
             None \<Rightarrow> (take (length u - 1) u, u)
           | Some i \<Rightarrow> (take i u, drop (Suc i) u)))"

definition urlparse :: "string \<Rightarrow> error + url" where
  "urlparse u =
     (case urlsplit u of
        Inl e \<Rightarrow> Inl e
      | Inr r \<Rightarrow>
          if url_scheme r \<in> set uses_params \<and> CHR '';'' \<in> set (url_path r)
          then (let (pa, params) = splitparams (url_path r)
                in Inr (r\<lparr>url_path := pa, url_params := params\<rparr>))
          else Inr r)"

section \<open>Path handling\<close>

text \<open>
  A value bound to \<^verbatim>\<open>path\<close> after \<^verbatim>\<open>parse_path\<close>: a \<^verbatim>\<open>str\<close>, or the empty
  \<^verbatim>\<open>bytes\<close> object that \<^verbatim>\<open>urlparse\<close> returns for a false argument that is not a
  \<^verbatim>\<open>str\<close> (it decodes such an argument to the empty string and encodes its result).
\<close>

datatype pypath = Str string | EmptyBytes

text \<open>
  \<^verbatim>\<open>def parse_path(path): url = parse.urlparse(path); return url.path\<close>.
  A true argument that is not a \<^verbatim>\<open>str\<close> has no \<^verbatim>\<open>decode\<close> method.
\<close>

definition parse_path :: "json \<Rightarrow> error + pypath" where
  "parse_path raw =
     (case raw of
        JStr u \<Rightarrow> (case urlparse u of Inl e \<Rightarrow> Inl e | Inr r \<Rightarrow> Inr (Str (url_path r)))
      | _ \<Rightarrow> if truthy raw then Inl AttributeError else Inr EmptyBytes)"

text \<open>\<^verbatim>\<open>path in self.subscriptions\<close>; the set only ever holds \<^verbatim>\<open>str\<close> objects.\<close>

fun member :: "pypath \<Rightarrow> string set \<Rightarrow> bool" where
  "member (Str q) S = (q \<in> S)"
| "member EmptyBytes S = False"

text \<open>\<^verbatim>\<open>'{}'.format(path)\<close>.\<close>

fun format_path :: "pypath \<Rightarrow> string" where
  "format_path (Str q) = q"
| "format_path EmptyBytes = [CHR ''b'', CHR 0x27, CHR 0x27]"

text \<open>
  The configuration read by \<^verbatim>\<open>is_valid_app_path\<close> and the HTTP client it calls:
  \<^verbatim>\<open>requests.get(url)\<close> either raises or returns a response with a status code.
\<close>

record config =
  host :: string
  port :: string

type_synonym http_get = "string \<Rightarrow> error + int"

text \<open>
  \<^verbatim>\<open>is_valid_app_path(path)\<close> on a \<^verbatim>\<open>str\<close>. The result is paired with the list of
  URLs requested from the resource server, so that a probe that is issued is visible.
\<close>

definition is_valid_app_path :: "config \<Rightarrow> http_get \<Rightarrow> string \<Rightarrow> (error + bool) \<times> string list" where
  "is_valid_app_path cfg get path =
     (if startswith (lstrip path CHR ''/'') ''/api'' then
        (let u = ''http://'' @ host cfg @ '':'' @ port cfg @ ''/'' @ lstrip path CHR ''/'' in
         case get u of
           Inl e \<Rightarrow> (Inl e, [u])
         | Inr status_code \<Rightarrow> (Inr (\<not> (400 \<le> status_code \<and> status_code < 600)), [u]))
      else (Inr False, []))"

section \<open>The connection object\<close>

text \<open>
  One \<^verbatim>\<open>PubSub\<close> object per client socket. \<open>subscriptions\<close> is the Python set
  \<^verbatim>\<open>self.subscriptions\<close>; \<open>p_channels\<close> is the set of channels registered on the redis
  pubsub handle \<^verbatim>\<open>self.p\<close>; \<open>ws_calls\<close> lists the calls made on the websocket, oldest
  first (\<open>Send j\<close> stands for \<^verbatim>\<open>websocket.send(json.dumps(j))\<close>); \<open>scheduled\<close> holds the
  arguments of the \<^verbatim>\<open>subscribe\<close> coroutines handed to \<^verbatim>\<open>asyncio.ensure_future\<close> that
  have not run yet. Calls on the websocket and on the redis handle are taken to succeed.
\<close>

datatype ws_call = Close nat string | Send json

record pubsub =
  subscriptions :: "string set"
  p_channels :: "string set"
  ws_calls :: "ws_call list"
  scheduled :: "json list"

text \<open>
  What the methods read from outside the object: \<^verbatim>\<open>json.loads\<close>, \<^verbatim>\<open>bytes.decode('utf-8')\<close>
  and the module-level function bound to the name \<^verbatim>\<open>is_valid_app_path\<close>, applied to a
  \<^verbatim>\<open>str\<close>.
\<close>

record env =
  json_loads :: "string \<Rightarrow> error + json"
  decode_utf8 :: "string \<Rightarrow> error + string"
  valid_path :: "string \<Rightarrow> error + bool"

text \<open>The environment of the program as written: \<open>valid_path\<close> is the source's
  \<^verbatim>\<open>is_valid_app_path\<close>.\<close>

definition app_env ::
  "config \<Rightarrow> http_get \<Rightarrow> (string \<Rightarrow> error + json) \<Rightarrow> (string \<Rightarrow> error + string) \<Rightarrow> env" where
  "app_env cfg get loads decode =
     \<lparr>json_loads = loads, decode_utf8 = decode,
      valid_path = (\<lambda>path. fst (is_valid_app_path cfg get path))\<rparr>"

text \<open>A method either returns, with the object updated, or raises, with the object as it
  was when the exception left the method.\<close>

type_synonym outcome = "(error \<times> pubsub) + pubsub"

definition send :: "pubsub \<Rightarrow> json \<Rightarrow> pubsub" where
  "send s j = s\<lparr>ws_calls := ws_calls s @ [Send j]\<rparr>"

definition error_reply :: "string \<Rightarrow> json" where
  "error_reply msg = JObj [(''error'', JStr msg)]"

text \<open>The class attribute \<^verbatim>\<open>functions\<close>.\<close>

definition function_names :: "string list" where
  "function_names = [''ls'', ''subscribe'', ''unsubscribe'']"

text \<open>\<^verbatim>\<open>is_valid_app_path(path)\<close> on the result of \<^verbatim>\<open>parse_path\<close>: on a bytes object
  \<^verbatim>\<open>path.lstrip('/')\<close> raises TypeError.\<close>

fun is_valid :: "env \<Rightarrow> pypath \<Rightarrow> error + bool" where
  "is_valid ev (Str q) = valid_path ev q"
| "is_valid ev EmptyBytes = Inl TypeError"

fun add_path :: "pypath \<Rightarrow> string set \<Rightarrow> string set" where
  "add_path (Str q) S = insert q S"
| "add_path EmptyBytes S = S"

fun remove_path :: "pypath \<Rightarrow> string set \<Rightarrow> string set" where
  "remove_path (Str q) S = S - {q}"
| "remove_path EmptyBytes S = S"

definition ls :: "pubsub \<Rightarrow> json \<Rightarrow> outcome" where
  "ls s message = Inr (send s (JArr (map JStr (sorted_list_of_set (subscriptions s)))))"

definition subscribe :: "env \<Rightarrow> pubsub \<Rightarrow> json \<Rightarrow> outcome" where
  "subscribe ev s message =
     (case subscript message ''path'' of
        Inl e \<Rightarrow> Inl (e, s)
      | Inr raw \<Rightarrow>
          (case parse_path raw of
             Inl e \<Rightarrow> Inl (e, s)
           | Inr path \<Rightarrow>
               if \<not> member path (subscriptions s) then
                 (case is_valid ev path of
                    Inl e \<Rightarrow> Inl (e, s)
                  | Inr ok \<Rightarrow>
                      if \<not> ok then
                        Inr (send s (error_reply (''Invalid path: '' @ format_path path)))
                      else
                        Inr (s\<lparr>p_channels := add_path path (p_channels s),
                               subscriptions := add_path path (subscriptions s)\<rparr>))
               else
                 Inr (send s (error_reply (''Already subscribed to path: '' @ format_path path)))))"

definition unsubscribe :: "pubsub \<Rightarrow> json \<Rightarrow> outcome" where
  "unsubscribe s message =
     (case subscript message ''path'' of
        Inl e \<Rightarrow> Inl (e, s)
      | Inr raw \<Rightarrow>
          (case parse_path raw of
             Inl e \<Rightarrow> Inl (e, s)
           | Inr path \<Rightarrow>
               if member path (subscriptions s) then
                 Inr (s\<lparr>p_channels := remove_path path (p_channels s),
                        subscriptions := remove_path path (subscriptions s)\<rparr>)
               else
                 Inr (send s (error_reply (''Not subscribed to path: '' @ format_path path)))))"

text \<open>\<^verbatim>\<open>getattr(self, function)\<close> for a name that passed the check against
  \<^verbatim>\<open>self.functions\<close>.\<close>

definition getattr :: "env \<Rightarrow> string \<Rightarrow> pubsub \<Rightarrow> json \<Rightarrow> outcome" where
  "getattr ev name =
     (if name = ''ls'' then ls
      else if name = ''subscribe'' then subscribe ev
      else if name = ''unsubscribe'' then unsubscribe
      else (\<lambda>s message. Inl (AttributeError, s)))"

definition consumer :: "env \<Rightarrow> pubsub \<Rightarrow> string \<Rightarrow> outcome" where
  "consumer ev s frame =
     (case json_loads ev frame of
        Inl e \<Rightarrow> Inr (send s (error_reply ''Message is not json loadable.''))
      | Inr message \<Rightarrow>
          if \<not> has_get message then Inr (send s (error_reply ''Message must be a dict.''))
          else
            (case dict_get message ''function'' of
               JStr name \<Rightarrow>
                 if name \<notin> set function_names then
                   Inr (send s (error_reply
                     (''function must be one of: '' @ join '', '' function_names @ ''.'')))
                 else getattr ev name s message
             | _ \<Rightarrow>
                 Inr (send s (error_reply
                   (''function must be one of: '' @ join '', '' function_names @ ''.'')))))"

subsection \<open>Broker events\<close>

text \<open>
  The dict returned by \<^verbatim>\<open>self.p.get_message()\<close>: \<^verbatim>\<open>type\<close> is a \<^verbatim>\<open>str\<close>,
  \<^verbatim>\<open>channel\<close> is bytes, \<^verbatim>\<open>data\<close> is the published bytes for a \<^verbatim>\<open>message\<close> and the
  number of subscriptions for \<^verbatim>\<open>subscribe\<close> and \<^verbatim>\<open>unsubscribe\<close>.
\<close>

datatype redis_data = Payload string | Count int

record r_message =
  r_type :: string
  r_channel :: string
  r_data :: redis_data

definition producer :: "env \<Rightarrow> pubsub \<Rightarrow> r_message \<Rightarrow> outcome" where
  "producer ev s r =
     (let function = r_type r in
      case decode_utf8 ev (r_channel r) of
        Inl e \<Rightarrow> Inl (e, s)
      | Inr channel \<Rightarrow>
          (let w_message = [(''function'', JStr function), (''path'', JStr channel)] in
           if function = ''message'' then
             (case r_data r of
                Count n \<Rightarrow> Inl (AttributeError, s)
              | Payload b \<Rightarrow>
                  (case decode_utf8 ev b of
                     Inl e \<Rightarrow> Inl (e, s)
                   | Inr txt \<Rightarrow>
                       (case json_loads ev txt of
                          Inl e \<Rightarrow> Inl (e, s)
                        | Inr data \<Rightarrow>
                            (case subscript data ''data'' of
                               Inl e \<Rightarrow> Inl (e, s)
                             | Inr d \<Rightarrow>
                                 (case subscript data ''type'' of
                                    Inl e \<Rightarrow> Inl (e, s)
                                  | Inr t \<Rightarrow>
                                      Inr (send s (JObj (w_message @
                                        [(''data'', d), (''type'', t)]))))))))
           else Inr (send s (JObj w_message))))"

subsection \<open>Life cycle\<close>

text \<open>
  \<^verbatim>\<open>__init__(self, websocket, path)\<close> on a fresh websocket. The source has no
  \<^verbatim>\<open>return\<close> after \<^verbatim>\<open>websocket.close\<close>: the test \<^verbatim>\<open>if path\<close> follows in every case.
\<close>

definition init :: "env \<Rightarrow> string \<Rightarrow> outcome" where
  "init ev path0 =
     (let s = \<lparr>subscriptions = {}, p_channels = {}, ws_calls = [], scheduled = []\<rparr>;
          path1 = rstrip path0 CHR ''/'';
          path = (if endswith path1 ''/ws'' then take (length path1 - 3) path1 else path1)
      in case valid_path ev path of
           Inl e \<Rightarrow> Inl (e, s)
         | Inr ok \<Rightarrow>
             (let s1 = (if \<not> ok then s\<lparr>ws_calls := ws_calls s @ [Close 4000 ''Invalid path.'']\<rparr>
                        else s);
                  s2 = (if path \<noteq> [] then
                          s1\<lparr>scheduled := scheduled s1 @ [JObj [(''path'', JStr path)]]\<rparr>
                        else s1)
              in Inr s2))"

text \<open>
  A coroutine given to \<^verbatim>\<open>asyncio.ensure_future\<close> runs when the creating task first
  suspends, which is at \<^verbatim>\<open>asyncio.wait\<close> in the first iteration of \<^verbatim>\<open>handle\<close>; an
  exception it raises stays in its own task.
\<close>

definition run_scheduled :: "env \<Rightarrow> pubsub \<Rightarrow> pubsub" where
  "run_scheduled ev s =
     fold (\<lambda>message st. case subscribe ev st message of Inl (e, st') \<Rightarrow> st' | Inr st' \<Rightarrow> st')
          (scheduled s) (s\<lparr>scheduled := []\<rparr>)"

text \<open>
  What one iteration of the \<^verbatim>\<open>while True\<close> loop of \<^verbatim>\<open>handle\<close> acts on: a frame
  returned by \<^verbatim>\<open>websocket.recv()\<close>, a message obtained by the producer task, or an
  exception raised by \<^verbatim>\<open>recv\<close> (the socket was closed).
\<close>

datatype event = Recv string | Produced r_message | RecvRaised error

text \<open>The loop on a finite sequence of events: \<open>Inr s\<close> is the object while the loop waits
  for the next event, \<open>Inl\<close> an exception that left the loop.\<close>

fun loop :: "env \<Rightarrow> pubsub \<Rightarrow> event list \<Rightarrow> outcome" where
  "loop ev s [] = Inr s"
| "loop ev s (Recv frame # evs) =
     (case consumer ev s frame of Inl x \<Rightarrow> Inl x | Inr s' \<Rightarrow> loop ev s' evs)"
| "loop ev s (Produced r # evs) =
     (case producer ev s r of Inl x \<Rightarrow> Inl x | Inr s' \<Rightarrow> loop ev s' evs)"
| "loop ev s (RecvRaised e # evs) = Inl (e, s)"

definition handle :: "env \<Rightarrow> pubsub \<Rightarrow> event list \<Rightarrow> outcome" where
  "handle ev s evs = loop ev (run_scheduled ev s) evs"

text \<open>
  \<^verbatim>\<open>__exit__\<close>: \<^verbatim>\<open>self.p.unsubscribe()\<close> drops every channel; with an exception at hand
  the method then reads \<^verbatim>\<open>self.log.Exception\<close>, an attribute a logger does not have.
\<close>

definition exit :: "pubsub \<Rightarrow> error option \<Rightarrow> outcome" where
  "exit s exc =
     (let s' = s\<lparr>p_channels := {}\<rparr> in
      case exc of None \<Rightarrow> Inr s' | Some e \<Rightarrow> Inl (AttributeError, s'))"

text \<open>\<^verbatim>\<open>create\<close>: \<^verbatim>\<open>with cls(websocket, path) as self: await self.handle()\<close>.\<close>

definition create :: "env \<Rightarrow> string \<Rightarrow> event list \<Rightarrow> outcome" where
  "create ev path evs =
     (case init ev path of
        Inl x \<Rightarrow> Inl x
      | Inr s \<Rightarrow>
          (case handle ev s evs of
             Inl (e, s') \<Rightarrow> exit s' (Some e)
           | Inr s' \<Rightarrow> Inr s'))"

section \<open>Example inputs\<close>

text \<open>
  Concrete inputs at which the theorems below are instantiated. \<open>example_loads\<close> is
  \<^verbatim>\<open>json.loads\<close> on the frames listed and raises on every other text. \<open>example_env\<close> is the
  program as written, beside a resource server that answers every request with status 200;
  \<open>accepting_env\<close> differs from it in a validator that accepts the paths under
  \<^verbatim>\<open>/api\<close>.
\<close>

definition example_frames :: "(string \<times> json) list" where
  \<open>example_frames =
     [(''{"function": "ls"}'', JObj [(''function'', JStr ''ls'')]),
      (''{"function": "subscribe", "path": "/api/salads/1"}'',
         JObj [(''function'', JStr ''subscribe''), (''path'', JStr ''/api/salads/1'')]),
      (''{"function": "unsubscribe", "path": "/api/salads/1"}'',
         JObj [(''function'', JStr ''unsubscribe''), (''path'', JStr ''/api/salads/1'')]),
      (''{"function": "subscribe"}'', JObj [(''function'', JStr ''subscribe'')]),
      (''{"function": "rm"}'', JObj [(''function'', JStr ''rm'')]),
      (''["ls"]'', JArr [JStr ''ls'']),
      (''{"data": {"name": "tomato"}, "type": "CREATE"}'',
         JObj [(''data'', JObj [(''name'', JStr ''tomato'')]), (''type'', JStr ''CREATE'')])]\<close>

definition example_loads :: "string \<Rightarrow> error + json" where
  "example_loads frame =
     (case map_of example_frames frame of None \<Rightarrow> Inl ValueError | Some j \<Rightarrow> Inr j)"

definition http_ok :: http_get where
  "http_ok u = Inr 200"

definition example_env :: env where
  "example_env = app_env \<lparr>host = ''localhost'', port = ''5000''\<rparr> http_ok example_loads Inr"

definition accepting_env :: env where
  "accepting_env = example_env\<lparr>valid_path := (\<lambda>path. Inr (startswith path ''/api''))\<rparr>"

section \<open>Facts about the string methods\<close>

lemma startswith_lstrip: "\<not> startswith (lstrip s c) (c # pre)"
proof
  assume a: "startswith (lstrip s c) (c # pre)"
  define d where "d = dropWhile (\<lambda>x. x = c) s"
  from a have t: "take (Suc (length pre)) d = c # pre"
    by (simp add: startswith_def lstrip_def d_def)
  then obtain ys where d: "d = c # ys" by (cases d) auto
  then have "d \<noteq> []" by simp
  then have "hd d \<noteq> c" unfolding d_def by (rule hd_dropWhile)
  with d show False by simp
qed

lemma is_valid_app_path_False: "is_valid_app_path cfg get path = (Inr False, [])"
proof -
  have "\<not> startswith (lstrip path CHR ''/'') ''/api''" by (rule startswith_lstrip)
  then show ?thesis unfolding is_valid_app_path_def by (simp only: if_False)
qed











subsection \<open>The path component that urlparse returns\<close>











subsection \<open>The subscription set stays finite\<close>

lemma finite_add_path: "finite S \<Longrightarrow> finite (add_path path S)"
  by (cases path) simp_all

lemma finite_remove_path: "finite S \<Longrightarrow> finite (remove_path path S)"
  by (cases path) simp_all

lemma finite_subscribe:
  "finite (subscriptions s) \<Longrightarrow>
   (case subscribe ev s message of Inl (e, s') \<Rightarrow> finite (subscriptions s')
                                  | Inr s' \<Rightarrow> finite (subscriptions s'))"
  by (auto simp: subscribe_def send_def finite_add_path split: sum.splits)

lemma finite_subscribe_Inr:
  "finite (subscriptions s) \<Longrightarrow> subscribe ev s message = Inr s' \<Longrightarrow> finite (subscriptions s')"
  using finite_subscribe[of s ev message] by simp

lemma finite_unsubscribe:
  "finite (subscriptions s) \<Longrightarrow> unsubscribe s message = Inr s' \<Longrightarrow> finite (subscriptions s')"
  by (auto simp: unsubscribe_def send_def finite_remove_path split: sum.splits if_splits)

lemma finite_consumer:
  "finite (subscriptions s) \<Longrightarrow> consumer ev s frame = Inr s' \<Longrightarrow> finite (subscriptions s')"
  by (auto simp: consumer_def send_def getattr_def ls_def
           split: sum.splits if_splits json.splits
           dest: finite_subscribe_Inr finite_unsubscribe)

lemma finite_producer:
  "finite (subscriptions s) \<Longrightarrow> producer ev s r = Inr s' \<Longrightarrow> finite (subscriptions s')"
  by (auto simp: producer_def send_def Let_def split: sum.splits if_splits redis_data.splits)

lemma finite_loop:
  "finite (subscriptions s) \<Longrightarrow> loop ev s evs = Inr s' \<Longrightarrow> finite (subscriptions s')"
proof (induction ev s evs rule: loop.induct)
  case (1 ev s)
  then show ?case by simp
next
  case (2 ev s frame evs)
  then show ?case by (auto split: sum.splits dest: finite_consumer)
next
  case (3 ev s r evs)
  then show ?case by (auto split: sum.splits dest: finite_producer)
next
  case (4 ev s e evs)
  then show ?case by simp
qed

lemma finite_fold_subscribe:
  "finite (subscriptions s) \<Longrightarrow>
   finite (subscriptions
     (fold (\<lambda>message st. case subscribe ev st message of Inl (e, st') \<Rightarrow> st' | Inr st' \<Rightarrow> st') ms s))"
proof (induction ms arbitrary: s)
  case Nil
  then show ?case by simp
next
  case (Cons m ms)
  from finite_subscribe[OF Cons.prems, of ev m]
  have "finite (subscriptions (case subscribe ev s m of Inl (e, st') \<Rightarrow> st' | Inr st' \<Rightarrow> st'))"
    by (auto split: sum.splits)
  from Cons.IH[OF this] show ?case by simp
qed

lemma finite_run_scheduled:
  "finite (subscriptions s) \<Longrightarrow> finite (subscriptions (run_scheduled ev s))"
  unfolding run_scheduled_def by (rule finite_fold_subscribe) simp

lemma finite_init: "init ev path = Inr s \<Longrightarrow> finite (subscriptions s)"
  by (auto simp: init_def Let_def split: sum.splits if_splits)

lemma finite_handle:
  "init ev path = Inr s0 \<Longrightarrow> handle ev s0 evs = Inr s \<Longrightarrow> finite (subscriptions s)"
  unfolding handle_def
  by (erule finite_loop[rotated]) (rule finite_run_scheduled, erule finite_init)

lemma join_function_names:
  "join '', '' function_names = ''ls, subscribe, unsubscribe''"
  by (simp add: function_names_def)

section \<open>The path validator\<close>

text \<open>
  C1. The claim: a path whose form without leading slashes does not begin with \<^verbatim>\<open>api\<close> is
  rejected without a probe, and a path that does begin with it is valid exactly when the
  probe's status code lies outside 400 to 599. The source comments \<^verbatim>\<open>Path must start with
  'api'\<close> and then tests \<^verbatim>\<open>path.lstrip('/').startswith('/api')\<close>, which no string stripped
  of its leading slashes satisfies. At the path \<^verbatim>\<open>/api/salads/123\<close>, with a resource
  server that would answer 200, the function returns False and requests nothing.
\<close>

theorem is_valid_app_path_api_salads:
  "is_valid_app_path \<lparr>host = ''localhost'', port = ''5000''\<rparr> http_ok ''/api/salads/123''
     = (Inr False, [])"
  by (rule is_valid_app_path_False)

section \<open>Connection set-up\<close>

text \<open>
  C2. The claim: a connection whose initial path fails the validity check is closed with code
  4000 and reason \<^verbatim>\<open>Invalid path.\<close>, is sent no other frame, and its handler never enters
  the main loop. \<^verbatim>\<open>__init__\<close> comments \<^verbatim>\<open>If path is invalid, close connection\<close>, calls
  \<^verbatim>\<open>websocket.close\<close> and goes on: it schedules \<^verbatim>\<open>subscribe\<close> on the rejected path, and
  \<^verbatim>\<open>create\<close> awaits \<^verbatim>\<open>handle\<close> all the same. For the initial path \<^verbatim>\<open>/salads/ws\<close>,
  followed by one \<^verbatim>\<open>ls\<close> frame from the client, the calls on the websocket are the close,
  the error reply of the scheduled subscribe and the reply to \<^verbatim>\<open>ls\<close>.
\<close>

theorem create_invalid_path_enters_loop:
  \<open>create example_env ''/salads/ws'' [Recv ''{"function": "ls"}''] =
    Inr \<lparr>subscriptions = {}, p_channels = {},
         ws_calls = [Close 4000 ''Invalid path.'',
                     Send (JObj [(''error'', JStr ''Invalid path: /salads'')]),
                     Send (JArr [])],
         scheduled = []\<rparr>\<close>
  by code_simp

section \<open>Canonical paths\<close>




section \<open>The subscription registry\<close>

text \<open>
  C4. The claim: for every raw path, \<^verbatim>\<open>subscribe\<close> replies \<^verbatim>\<open>Already subscribed\<close> for a
  member, replies \<^verbatim>\<open>Invalid path\<close> for an invalid path that is not a member, and registers
  and adds the path only when it is valid and not a member. \<^verbatim>\<open>parse_path\<close> comes first and
  is not guarded: for a URL that \<^verbatim>\<open>urlparse\<close> rejects, and for a path that is not a string,
  \<^verbatim>\<open>subscribe\<close> raises and sends no reply.
\<close>

theorem subscribe_unparsable_path_counterexample:
  "subscribe example_env
      \<lparr>subscriptions = {}, p_channels = {}, ws_calls = [], scheduled = []\<rparr>
      (JObj [(''path'', JStr ''http://[::1/x'')])
    = Inl (ValueError, \<lparr>subscriptions = {}, p_channels = {}, ws_calls = [], scheduled = []\<rparr>)
   \<and> subscribe example_env
      \<lparr>subscriptions = {}, p_channels = {}, ws_calls = [], scheduled = []\<rparr>
      (JObj [(''path'', JNull)])
    = Inl (TypeError, \<lparr>subscriptions = {}, p_channels = {}, ws_calls = [], scheduled = []\<rparr>)"
  by code_simp

text \<open>
  C4, as amended: for every state and every message that carries a raw path, when
  \<^verbatim>\<open>parse_path\<close> raises on the raw path, \<^verbatim>\<open>subscribe\<close> raises the same exception, and
  when it returns the empty bytes object (a false raw path that is not a string),
  \<^verbatim>\<open>subscribe\<close> raises TypeError; in both cases nothing is sent and nothing changes.
  Otherwise, with \<open>q\<close> the canonical path: when \<open>q\<close> is a member, the reply is the error
  \<^verbatim>\<open>Already subscribed to path\<close> and neither the set nor the broker handle changes, whatever
  the validator would say; when \<open>q\<close> is not a member and the validator rejects it, the reply
  is the error \<^verbatim>\<open>Invalid path\<close> and neither changes; only when \<open>q\<close> is not a member and
  valid is it registered on the handle and added to the set; and when the validator raises,
  the exception leaves the method and nothing changes.
\<close>

theorem subscribe_membership_then_validity:
  assumes "subscript message ''path'' = Inr raw"
  shows "(parse_path raw = Inl e \<longrightarrow> subscribe ev s message = Inl (e, s))
       \<and> (parse_path raw = Inr EmptyBytes \<longrightarrow> subscribe ev s message = Inl (TypeError, s))
       \<and> (parse_path raw = Inr (Str q) \<and> q \<in> subscriptions s \<longrightarrow>
            subscribe ev s message =
              Inr (s\<lparr>ws_calls := ws_calls s @
                [Send (JObj [(''error'', JStr (''Already subscribed to path: '' @ q))])]\<rparr>))
       \<and> (parse_path raw = Inr (Str q) \<and> q \<notin> subscriptions s \<and> valid_path ev q = Inr False \<longrightarrow>
            subscribe ev s message =
              Inr (s\<lparr>ws_calls := ws_calls s @
                [Send (JObj [(''error'', JStr (''Invalid path: '' @ q))])]\<rparr>))
       \<and> (parse_path raw = Inr (Str q) \<and> q \<notin> subscriptions s \<and> valid_path ev q = Inr True \<longrightarrow>
            subscribe ev s message =
              Inr (s\<lparr>p_channels := insert q (p_channels s),
                     subscriptions := insert q (subscriptions s)\<rparr>))
       \<and> (parse_path raw = Inr (Str q) \<and> q \<notin> subscriptions s \<and> valid_path ev q = Inl e \<longrightarrow>
            subscribe ev s message = Inl (e, s))"
  using assms by (simp add: subscribe_def send_def error_reply_def)

theorem subscribe_membership_then_validity_witness:
  "subscript (JObj [(''path'', JStr ''/api/salads/1'')]) ''path'' = Inr (JStr ''/api/salads/1'')
   \<and> parse_path (JStr ''/api/salads/1'') = Inr (Str ''/api/salads/1'')
   \<and> subscribe accepting_env
         \<lparr>subscriptions = {''/api/salads/1''}, p_channels = {''/api/salads/1''},
          ws_calls = [], scheduled = []\<rparr>
         (JObj [(''path'', JStr ''/api/salads/1'')])
       = Inr \<lparr>subscriptions = {''/api/salads/1''}, p_channels = {''/api/salads/1''},
          ws_calls = [Send (JObj [(''error'', JStr ''Already subscribed to path: /api/salads/1'')])],
          scheduled = []\<rparr>
   \<and> subscribe example_env
         \<lparr>subscriptions = {}, p_channels = {}, ws_calls = [], scheduled = []\<rparr>
         (JObj [(''path'', JStr ''/api/salads/1'')])
       = Inr \<lparr>subscriptions = {}, p_channels = {},
          ws_calls = [Send (JObj [(''error'', JStr ''Invalid path: /api/salads/1'')])],
          scheduled = []\<rparr>
   \<and> subscribe accepting_env
         \<lparr>subscriptions = {}, p_channels = {}, ws_calls = [], scheduled = []\<rparr>
         (JObj [(''path'', JStr ''/api/salads/1'')])
       = Inr \<lparr>subscriptions = {''/api/salads/1''}, p_channels = {''/api/salads/1''},
          ws_calls = [], scheduled = []\<rparr>
   \<and> subscribe (example_env\<lparr>valid_path := (\<lambda>path. Inl RequestException)\<rparr>)
         \<lparr>subscriptions = {}, p_channels = {}, ws_calls = [], scheduled = []\<rparr>
         (JObj [(''path'', JStr ''/api/salads/1'')])
       = Inl (RequestException,
              \<lparr>subscriptions = {}, p_channels = {}, ws_calls = [], scheduled = []\<rparr>)
   \<and> parse_path (JStr ''http://[::1/x'') = Inl ValueError
   \<and> subscribe accepting_env
         \<lparr>subscriptions = {}, p_channels = {}, ws_calls = [], scheduled = []\<rparr>
         (JObj [(''path'', JStr ''http://[::1/x'')])
       = Inl (ValueError, \<lparr>subscriptions = {}, p_channels = {}, ws_calls = [], scheduled = []\<rparr>)
   \<and> parse_path JNull = Inr EmptyBytes
   \<and> subscribe accepting_env
         \<lparr>subscriptions = {}, p_channels = {}, ws_calls = [], scheduled = []\<rparr>
         (JObj [(''path'', JNull)])
       = Inl (TypeError, \<lparr>subscriptions = {}, p_channels = {}, ws_calls = [], scheduled = []\<rparr>)"
proof -
  let ?m = "JObj [(''path'', JStr ''/api/salads/1'')]"
  let ?e = "\<lparr>subscriptions = {}, p_channels = {}, ws_calls = [], scheduled = []\<rparr>"
  have h1: "subscript ?m ''path'' = Inr (JStr ''/api/salads/1'')" by simp
  have h2: "parse_path (JStr ''/api/salads/1'') = Inr (Str ''/api/salads/1'')" by code_simp
  have g1: "subscript (JObj [(''path'', JStr ''http://[::1/x'')]) ''path'' = Inr (JStr ''http://[::1/x'')"
    by simp
  have g2: "parse_path (JStr ''http://[::1/x'') = Inl ValueError" by code_simp
  have n1: "subscript (JObj [(''path'', JNull)]) ''path'' = Inr JNull" by simp
  have n2: "parse_path JNull = Inr EmptyBytes" by code_simp
  have v3: "valid_path (example_env\<lparr>valid_path := (\<lambda>path. Inl RequestException)\<rparr>)
              ''/api/salads/1'' = Inl RequestException"
    by simp
  have v1: "valid_path example_env ''/api/salads/1'' = Inr False"
    by (simp add: example_env_def app_env_def is_valid_app_path_False)
  have v2: "valid_path accepting_env ''/api/salads/1'' = Inr True"
    by (simp add: accepting_env_def startswith_def)
  note t = subscribe_membership_then_validity[OF h1, where q = "''/api/salads/1''"]
  show ?thesis
    using h1 h2 g2 n2
      t[where s = "\<lparr>subscriptions = {''/api/salads/1''}, p_channels = {''/api/salads/1''},
          ws_calls = [], scheduled = []\<rparr>" and ev = accepting_env]
      t[where s = "?e" and ev = example_env]
      t[where s = "?e" and ev = accepting_env]
      t[where s = "?e" and ev = "example_env\<lparr>valid_path := (\<lambda>path. Inl RequestException)\<rparr>"
          and e = RequestException]
      subscribe_membership_then_validity[OF g1, where e = ValueError and s = "?e" and ev = accepting_env]
      subscribe_membership_then_validity[OF n1, where s = "?e" and ev = accepting_env]
      v1 v2 v3
    by simp
qed

text \<open>
  C5. The claim: for every raw path, \<^verbatim>\<open>unsubscribe\<close> replies \<^verbatim>\<open>Not subscribed\<close> when the
  canonical path is not a member and removes it when it is. For a URL that \<^verbatim>\<open>urlparse\<close>
  rejects, and for a true raw path that is not a string, \<^verbatim>\<open>unsubscribe\<close> raises at
  \<^verbatim>\<open>parse_path\<close> and sends no reply.
\<close>

theorem unsubscribe_unparsable_path_counterexample:
  "unsubscribe
      \<lparr>subscriptions = {}, p_channels = {}, ws_calls = [], scheduled = []\<rparr>
      (JObj [(''path'', JStr ''http://[::1/x'')])
    = Inl (ValueError, \<lparr>subscriptions = {}, p_channels = {}, ws_calls = [], scheduled = []\<rparr>)
   \<and> unsubscribe
      \<lparr>subscriptions = {}, p_channels = {}, ws_calls = [], scheduled = []\<rparr>
      (JObj [(''path'', JInt 5)])
    = Inl (AttributeError, \<lparr>subscriptions = {}, p_channels = {}, ws_calls = [], scheduled = []\<rparr>)"
  by code_simp

text \<open>
  C5, as amended: for every state and every message that carries a raw path, when
  \<^verbatim>\<open>parse_path\<close> raises on the raw path, \<^verbatim>\<open>unsubscribe\<close> raises the same exception,
  nothing is sent and nothing changes. Otherwise: when the canonical path is not a member
  (as the empty bytes object of a false raw path that is not a string never is), the reply is
  the error \<^verbatim>\<open>Not subscribed to path\<close> and the set and the broker handle are unchanged; when
  it is a member, it is removed from the handle and from the set.
\<close>

theorem unsubscribe_member_or_not:
  assumes "subscript message ''path'' = Inr raw"
  shows "(parse_path raw = Inl e \<longrightarrow> unsubscribe s message = Inl (e, s))
       \<and> (parse_path raw = Inr EmptyBytes \<longrightarrow>
            unsubscribe s message =
              Inr (s\<lparr>ws_calls := ws_calls s @
                [Send (JObj [(''error'', JStr (''Not subscribed to path: b'' @ [CHR 0x27, CHR 0x27]))])]\<rparr>))
       \<and> (parse_path raw = Inr (Str q) \<and> q \<notin> subscriptions s \<longrightarrow>
            unsubscribe s message =
              Inr (s\<lparr>ws_calls := ws_calls s @
                [Send (JObj [(''error'', JStr (''Not subscribed to path: '' @ q))])]\<rparr>))
       \<and> (parse_path raw = Inr (Str q) \<and> q \<in> subscriptions s \<longrightarrow>
            unsubscribe s message =
              Inr (s\<lparr>p_channels := p_channels s - {q},
                     subscriptions := subscriptions s - {q}\<rparr>))"
  using assms by (simp add: unsubscribe_def send_def error_reply_def)

theorem unsubscribe_member_or_not_witness:
  "subscript (JObj [(''path'', JStr ''/api/salads/1'')]) ''path'' = Inr (JStr ''/api/salads/1'')
   \<and> parse_path (JStr ''/api/salads/1'') = Inr (Str ''/api/salads/1'')
   \<and> unsubscribe
         \<lparr>subscriptions = {''/api/salads/2''}, p_channels = {''/api/salads/2''},
          ws_calls = [], scheduled = []\<rparr>
         (JObj [(''path'', JStr ''/api/salads/1'')])
       = Inr \<lparr>subscriptions = {''/api/salads/2''}, p_channels = {''/api/salads/2''},
          ws_calls = [Send (JObj [(''error'', JStr ''Not subscribed to path: /api/salads/1'')])],
          scheduled = []\<rparr>
   \<and> unsubscribe
         \<lparr>subscriptions = {''/api/salads/1'', ''/api/salads/2''},
          p_channels = {''/api/salads/1'', ''/api/salads/2''}, ws_calls = [], scheduled = []\<rparr>
         (JObj [(''path'', JStr ''/api/salads/1'')])
       = Inr \<lparr>subscriptions = {''/api/salads/2''}, p_channels = {''/api/salads/2''},
          ws_calls = [], scheduled = []\<rparr>
   \<and> parse_path (JStr ''http://[::1/x'') = Inl ValueError
   \<and> unsubscribe
         \<lparr>subscriptions = {''/api/salads/2''}, p_channels = {''/api/salads/2''},
          ws_calls = [], scheduled = []\<rparr>
         (JObj [(''path'', JStr ''http://[::1/x'')])
       = Inl (ValueError, \<lparr>subscriptions = {''/api/salads/2''}, p_channels = {''/api/salads/2''},
          ws_calls = [], scheduled = []\<rparr>)
   \<and> parse_path JNull = Inr EmptyBytes
   \<and> unsubscribe
         \<lparr>subscriptions = {''/api/salads/2''}, p_channels = {''/api/salads/2''},
          ws_calls = [], scheduled = []\<rparr>
         (JObj [(''path'', JNull)])
       = Inr \<lparr>subscriptions = {''/api/salads/2''}, p_channels = {''/api/salads/2''},
          ws_calls = [Send (JObj [(''error'',
                        JStr (''Not subscribed to path: b'' @ [CHR 0x27, CHR 0x27]))])],
          scheduled = []\<rparr>"
proof -
  let ?m = "JObj [(''path'', JStr ''/api/salads/1'')]"
  let ?s = "\<lparr>subscriptions = {''/api/salads/2''}, p_channels = {''/api/salads/2''},
          ws_calls = [], scheduled = []\<rparr>"
  have h1: "subscript ?m ''path'' = Inr (JStr ''/api/salads/1'')" by simp
  have h2: "parse_path (JStr ''/api/salads/1'') = Inr (Str ''/api/salads/1'')" by code_simp
  have g1: "subscript (JObj [(''path'', JStr ''http://[::1/x'')]) ''path'' = Inr (JStr ''http://[::1/x'')"
    by simp
  have g2: "parse_path (JStr ''http://[::1/x'') = Inl ValueError" by code_simp
  have n1: "subscript (JObj [(''path'', JNull)]) ''path'' = Inr JNull" by simp
  have n2: "parse_path JNull = Inr EmptyBytes" by code_simp
  note t = unsubscribe_member_or_not[OF h1, where q = "''/api/salads/1''"]
  show ?thesis
    using h1 h2 g2 n2
      t[where s = "?s"]
      t[where s = "\<lparr>subscriptions = {''/api/salads/1'', ''/api/salads/2''},
          p_channels = {''/api/salads/1'', ''/api/salads/2''}, ws_calls = [], scheduled = []\<rparr>"]
      unsubscribe_member_or_not[OF g1, where e = ValueError and s = "?s"]
      unsubscribe_member_or_not[OF n1, where s = "?s"]
    by auto
qed

text \<open>
  C6. The claim: in every state, \<^verbatim>\<open>subscribe\<close> followed by \<^verbatim>\<open>unsubscribe\<close> on the same
  path restores the subscription set. For a path that is already a member the first call
  only replies with an error and the second removes the path, so the set loses a member.
\<close>

theorem resubscribe_then_unsubscribe_counterexample:
  "subscribe example_env
      \<lparr>subscriptions = {''/api/salads/1''}, p_channels = {''/api/salads/1''},
       ws_calls = [], scheduled = []\<rparr>
      (JObj [(''path'', JStr ''/api/salads/1'')])
    = Inr \<lparr>subscriptions = {''/api/salads/1''}, p_channels = {''/api/salads/1''},
       ws_calls = [Send (JObj [(''error'', JStr ''Already subscribed to path: /api/salads/1'')])],
       scheduled = []\<rparr>
   \<and> unsubscribe
      \<lparr>subscriptions = {''/api/salads/1''}, p_channels = {''/api/salads/1''},
       ws_calls = [Send (JObj [(''error'', JStr ''Already subscribed to path: /api/salads/1'')])],
       scheduled = []\<rparr>
      (JObj [(''path'', JStr ''/api/salads/1'')])
    = Inr \<lparr>subscriptions = {}, p_channels = {},
       ws_calls = [Send (JObj [(''error'', JStr ''Already subscribed to path: /api/salads/1'')])],
       scheduled = []\<rparr>
   \<and> ({} :: string set) \<noteq> {''/api/salads/1''}"
  by code_simp

text \<open>
  C6, as amended: for a path that is not a member of the subscription set, whenever
  \<^verbatim>\<open>subscribe\<close> returns, \<^verbatim>\<open>unsubscribe\<close> on the same message returns as well and the
  subscription set is the one before the two calls.
\<close>

theorem subscribe_then_unsubscribe_round_trip:
  assumes "subscript message ''path'' = Inr (JStr raw)"
      and "parse_path (JStr raw) = Inr (Str q)"
      and "q \<notin> subscriptions s"
      and "subscribe ev s message = Inr s1"
  shows "\<exists>s2. unsubscribe s1 message = Inr s2 \<and> subscriptions s2 = subscriptions s"
proof (cases "valid_path ev q")
  case (Inl e)
  with assms show ?thesis by (simp add: subscribe_def)
next
  case (Inr ok)
  show ?thesis
  proof (cases ok)
    case True
    with Inr assms have "s1 = s\<lparr>p_channels := insert q (p_channels s),
                     subscriptions := insert q (subscriptions s)\<rparr>"
      by (simp add: subscribe_def)
    with assms show ?thesis by (simp add: unsubscribe_def)
  next
    case False
    with Inr assms have "s1 = send s (error_reply (''Invalid path: '' @ q))"
      by (simp add: subscribe_def)
    with assms show ?thesis by (simp add: unsubscribe_def send_def)
  qed
qed

theorem subscribe_then_unsubscribe_round_trip_witness:
  "subscript (JObj [(''path'', JStr ''/api/salads/1'')]) ''path'' = Inr (JStr ''/api/salads/1'')
   \<and> parse_path (JStr ''/api/salads/1'') = Inr (Str ''/api/salads/1'')
   \<and> ''/api/salads/1'' \<notin> {''/api/salads/2''}
   \<and> subscribe accepting_env
         \<lparr>subscriptions = {''/api/salads/2''}, p_channels = {''/api/salads/2''},
          ws_calls = [], scheduled = []\<rparr>
         (JObj [(''path'', JStr ''/api/salads/1'')])
       = Inr \<lparr>subscriptions = {''/api/salads/1'', ''/api/salads/2''},
          p_channels = {''/api/salads/1'', ''/api/salads/2''}, ws_calls = [], scheduled = []\<rparr>
   \<and> (\<exists>s2. unsubscribe
         \<lparr>subscriptions = {''/api/salads/1'', ''/api/salads/2''},
          p_channels = {''/api/salads/1'', ''/api/salads/2''}, ws_calls = [], scheduled = []\<rparr>
         (JObj [(''path'', JStr ''/api/salads/1'')]) = Inr s2
       \<and> subscriptions s2 = {''/api/salads/2''})"
proof -
  let ?m = "JObj [(''path'', JStr ''/api/salads/1'')]"
  let ?s = "\<lparr>subscriptions = {''/api/salads/2''}, p_channels = {''/api/salads/2''},
          ws_calls = [], scheduled = []\<rparr>"
  have h1: "subscript ?m ''path'' = Inr (JStr ''/api/salads/1'')" by simp
  have h2: "parse_path (JStr ''/api/salads/1'') = Inr (Str ''/api/salads/1'')" by code_simp
  have h3: "''/api/salads/1'' \<notin> subscriptions ?s" by simp
  have h4: "subscribe accepting_env ?s ?m
       = Inr \<lparr>subscriptions = {''/api/salads/1'', ''/api/salads/2''},
          p_channels = {''/api/salads/1'', ''/api/salads/2''}, ws_calls = [], scheduled = []\<rparr>"
    by (simp add: subscribe_def h2 accepting_env_def startswith_def)
  from subscribe_then_unsubscribe_round_trip[OF h1 h2 h3 h4] h1 h2 h4
  show ?thesis by simp
qed

section \<open>Command dispatch\<close>

text \<open>
  C7. A frame that \<^verbatim>\<open>json.loads\<close> rejects, a frame that decodes to something other than a
  dict, and a dict whose \<^verbatim>\<open>function\<close> is missing or not one of \<^verbatim>\<open>ls\<close>,
  \<^verbatim>\<open>subscribe\<close>, \<^verbatim>\<open>unsubscribe\<close>, each get one \<^verbatim>\<open>{"error": ...}\<close> reply; the last of
  these lists the three function names. Nothing but the reply changes, so the subscription set
  is the same, and the loop goes on to the next event.
\<close>

theorem consumer_rejects_malformed_frame:
  assumes "(\<exists>e. json_loads ev frame = Inl e) \<and> reply = ''Message is not json loadable.''
         \<or> (\<exists>m. json_loads ev frame = Inr m \<and> (\<forall>kvs. m \<noteq> JObj kvs))
             \<and> reply = ''Message must be a dict.''
         \<or> (\<exists>kvs. json_loads ev frame = Inr (JObj kvs)
                \<and> map_of kvs ''function'' \<notin>
                    {Some (JStr ''ls''), Some (JStr ''subscribe''), Some (JStr ''unsubscribe'')})
             \<and> reply = ''function must be one of: ls, subscribe, unsubscribe.''"
  shows "consumer ev s frame =
           Inr (s\<lparr>ws_calls := ws_calls s @ [Send (JObj [(''error'', JStr reply)])]\<rparr>)
       \<and> loop ev s (Recv frame # evs) =
           loop ev (s\<lparr>ws_calls := ws_calls s @ [Send (JObj [(''error'', JStr reply)])]\<rparr>) evs"
proof -
  have c: "consumer ev s frame =
           Inr (s\<lparr>ws_calls := ws_calls s @ [Send (JObj [(''error'', JStr reply)])]\<rparr>)"
    using assms
  proof (elim disjE conjE exE)
    fix e assume "json_loads ev frame = Inl e" "reply = ''Message is not json loadable.''"
    then show ?thesis by (simp add: consumer_def send_def error_reply_def)
  next
    fix m assume m: "json_loads ev frame = Inr m" "\<forall>kvs. m \<noteq> JObj kvs"
      and r: "reply = ''Message must be a dict.''"
    from m(2) have "\<not> has_get m" by (cases m) auto
    with m(1) r show ?thesis by (simp add: consumer_def send_def error_reply_def)
  next
    fix kvs assume m: "json_loads ev frame = Inr (JObj kvs)"
      and f: "map_of kvs ''function'' \<notin>
                    {Some (JStr ''ls''), Some (JStr ''subscribe''), Some (JStr ''unsubscribe'')}"
      and r: "reply = ''function must be one of: ls, subscribe, unsubscribe.''"
    show ?thesis
    proof (cases "dict_get (JObj kvs) ''function''")
      case (JStr name)
      with f have "name \<notin> set function_names"
        by (auto simp: function_names_def split: option.splits)
      with m JStr r show ?thesis
        by (simp add: consumer_def send_def error_reply_def join_function_names)
    qed (use m r in \<open>simp_all add: consumer_def send_def error_reply_def join_function_names\<close>)
  qed
  then show ?thesis by simp
qed

theorem consumer_rejects_malformed_frame_witness:
  \<open>json_loads example_env ''not json'' = Inl ValueError
   \<and> consumer example_env \<lparr>subscriptions = {}, p_channels = {}, ws_calls = [], scheduled = []\<rparr>
        ''not json''
       = Inr \<lparr>subscriptions = {}, p_channels = {},
               ws_calls = [Send (JObj [(''error'', JStr ''Message is not json loadable.'')])],
               scheduled = []\<rparr>
   \<and> json_loads example_env ''["ls"]'' = Inr (JArr [JStr ''ls''])
   \<and> consumer example_env \<lparr>subscriptions = {}, p_channels = {}, ws_calls = [], scheduled = []\<rparr>
        ''["ls"]''
       = Inr \<lparr>subscriptions = {}, p_channels = {},
               ws_calls = [Send (JObj [(''error'', JStr ''Message must be a dict.'')])],
               scheduled = []\<rparr>
   \<and> json_loads example_env ''{"function": "rm"}'' = Inr (JObj [(''function'', JStr ''rm'')])
   \<and> loop example_env \<lparr>subscriptions = {}, p_channels = {}, ws_calls = [], scheduled = []\<rparr>
        [Recv ''{"function": "rm"}'', Recv ''{"function": "ls"}'']
       = Inr \<lparr>subscriptions = {}, p_channels = {},
               ws_calls = [Send (JObj [(''error'',
                              JStr ''function must be one of: ls, subscribe, unsubscribe.'')]),
                           Send (JArr [])],
               scheduled = []\<rparr>\<close>
proof -
  let ?s = "\<lparr>subscriptions = {}, p_channels = {}, ws_calls = [], scheduled = []\<rparr>"
  have l1: \<open>json_loads example_env ''not json'' = Inl ValueError\<close> by code_simp
  have l2: \<open>json_loads example_env ''["ls"]'' = Inr (JArr [JStr ''ls''])\<close> by code_simp
  have l3: \<open>json_loads example_env ''{"function": "rm"}'' = Inr (JObj [(''function'', JStr ''rm'')])\<close>
    by code_simp
  have h1: \<open>(\<exists>e. json_loads example_env ''not json'' = Inl e)
               \<and> ''Message is not json loadable.'' = ''Message is not json loadable.''
         \<or> (\<exists>m. json_loads example_env ''not json'' = Inr m \<and> (\<forall>kvs. m \<noteq> JObj kvs))
             \<and> ''Message is not json loadable.'' = ''Message must be a dict.''
         \<or> (\<exists>kvs. json_loads example_env ''not json'' = Inr (JObj kvs)
                \<and> map_of kvs ''function'' \<notin>
                    {Some (JStr ''ls''), Some (JStr ''subscribe''), Some (JStr ''unsubscribe'')})
             \<and> ''Message is not json loadable.''
                  = ''function must be one of: ls, subscribe, unsubscribe.''\<close>
    using l1 by blast
  have h2: \<open>(\<exists>e. json_loads example_env ''["ls"]'' = Inl e)
               \<and> ''Message must be a dict.'' = ''Message is not json loadable.''
         \<or> (\<exists>m. json_loads example_env ''["ls"]'' = Inr m \<and> (\<forall>kvs. m \<noteq> JObj kvs))
             \<and> ''Message must be a dict.'' = ''Message must be a dict.''
         \<or> (\<exists>kvs. json_loads example_env ''["ls"]'' = Inr (JObj kvs)
                \<and> map_of kvs ''function'' \<notin>
                    {Some (JStr ''ls''), Some (JStr ''subscribe''), Some (JStr ''unsubscribe'')})
             \<and> ''Message must be a dict.''
                  = ''function must be one of: ls, subscribe, unsubscribe.''\<close>
    using l2 by simp
  have h3: \<open>(\<exists>e. json_loads example_env ''{"function": "rm"}'' = Inl e)
               \<and> ''function must be one of: ls, subscribe, unsubscribe.''
                    = ''Message is not json loadable.''
         \<or> (\<exists>m. json_loads example_env ''{"function": "rm"}'' = Inr m \<and> (\<forall>kvs. m \<noteq> JObj kvs))
             \<and> ''function must be one of: ls, subscribe, unsubscribe.'' = ''Message must be a dict.''
         \<or> (\<exists>kvs. json_loads example_env ''{"function": "rm"}'' = Inr (JObj kvs)
                \<and> map_of kvs ''function'' \<notin>
                    {Some (JStr ''ls''), Some (JStr ''subscribe''), Some (JStr ''unsubscribe'')})
             \<and> ''function must be one of: ls, subscribe, unsubscribe.''
                  = ''function must be one of: ls, subscribe, unsubscribe.''\<close>
    using l3 by simp
  have e: \<open>loop example_env
             (?s\<lparr>ws_calls := ws_calls ?s @ [Send (JObj [(''error'',
                    JStr ''function must be one of: ls, subscribe, unsubscribe.'')])]\<rparr>)
             [Recv ''{"function": "ls"}'']
        = Inr \<lparr>subscriptions = {}, p_channels = {},
               ws_calls = [Send (JObj [(''error'',
                              JStr ''function must be one of: ls, subscribe, unsubscribe.'')]),
                           Send (JArr [])],
               scheduled = []\<rparr>\<close>
    by code_simp
  from consumer_rejects_malformed_frame[OF h1, of ?s "[]"]
       consumer_rejects_malformed_frame[OF h2, of ?s "[]"]
       consumer_rejects_malformed_frame[OF h3, of ?s \<open>[Recv ''{"function": "ls"}'']\<close>]
       l1 l2 l3 e
  show ?thesis by simp
qed

section \<open>Forwarding broker events\<close>

text \<open>
  C8. For a broker message of type \<^verbatim>\<open>message\<close> on channel \<open>p\<close> whose payload decodes to a
  dict with \<^verbatim>\<open>data\<close> \<open>d\<close> and \<^verbatim>\<open>type\<close> \<open>t\<close>, the producer sends the object with
  \<^verbatim>\<open>function\<close> \<^verbatim>\<open>message\<close>, \<^verbatim>\<open>path\<close> \<open>p\<close>, \<^verbatim>\<open>data\<close> \<open>d\<close> and \<^verbatim>\<open>type\<close> \<open>t\<close>;
  for a message of type \<^verbatim>\<open>subscribe\<close> or \<^verbatim>\<open>unsubscribe\<close> it sends the object with
  \<^verbatim>\<open>function\<close> and \<^verbatim>\<open>path\<close> only.
\<close>

theorem producer_wire_object:
  assumes "decode_utf8 ev (r_channel r) = Inr p"
  shows "(r_type r = ''message'' \<and> r_data r = Payload b \<and> decode_utf8 ev b = Inr txt
            \<and> json_loads ev txt = Inr (JObj kvs)
            \<and> map_of kvs ''data'' = Some d \<and> map_of kvs ''type'' = Some t \<longrightarrow>
          producer ev s r =
            Inr (s\<lparr>ws_calls := ws_calls s @
              [Send (JObj [(''function'', JStr ''message''), (''path'', JStr p),
                           (''data'', d), (''type'', t)])]\<rparr>))
       \<and> (r_type r = ''subscribe'' \<or> r_type r = ''unsubscribe'' \<longrightarrow>
          producer ev s r =
            Inr (s\<lparr>ws_calls := ws_calls s @
              [Send (JObj [(''function'', JStr (r_type r)), (''path'', JStr p)])]\<rparr>))"
  using assms by (auto simp: producer_def send_def)

theorem producer_wire_object_witness:
  \<open>decode_utf8 example_env ''/api/salads/123'' = Inr ''/api/salads/123''
   \<and> producer example_env
         \<lparr>subscriptions = {''/api/salads/123''}, p_channels = {''/api/salads/123''},
          ws_calls = [], scheduled = []\<rparr>
         \<lparr>r_type = ''message'', r_channel = ''/api/salads/123'',
          r_data = Payload ''{"data": {"name": "tomato"}, "type": "CREATE"}''\<rparr>
       = Inr \<lparr>subscriptions = {''/api/salads/123''}, p_channels = {''/api/salads/123''},
          ws_calls = [Send (JObj [(''function'', JStr ''message''), (''path'', JStr ''/api/salads/123''),
                                  (''data'', JObj [(''name'', JStr ''tomato'')]),
                                  (''type'', JStr ''CREATE'')])],
          scheduled = []\<rparr>
   \<and> producer example_env
         \<lparr>subscriptions = {''/api/salads/123''}, p_channels = {''/api/salads/123''},
          ws_calls = [], scheduled = []\<rparr>
         \<lparr>r_type = ''subscribe'', r_channel = ''/api/salads/123'', r_data = Count 1\<rparr>
       = Inr \<lparr>subscriptions = {''/api/salads/123''}, p_channels = {''/api/salads/123''},
          ws_calls = [Send (JObj [(''function'', JStr ''subscribe''),
                                  (''path'', JStr ''/api/salads/123'')])],
          scheduled = []\<rparr>\<close>
proof -
  let ?s = "\<lparr>subscriptions = {''/api/salads/123''}, p_channels = {''/api/salads/123''},
          ws_calls = [], scheduled = []\<rparr>"
  let ?r1 = \<open>\<lparr>r_type = ''message'', r_channel = ''/api/salads/123'',
          r_data = Payload ''{"data": {"name": "tomato"}, "type": "CREATE"}''\<rparr>\<close>
  let ?r2 = "\<lparr>r_type = ''subscribe'', r_channel = ''/api/salads/123'', r_data = Count 1\<rparr>"
  have d: "\<And>b. decode_utf8 example_env b = Inr b" by (simp add: example_env_def app_env_def)
  have l: \<open>json_loads example_env ''{"data": {"name": "tomato"}, "type": "CREATE"}''
      = Inr (JObj [(''data'', JObj [(''name'', JStr ''tomato'')]), (''type'', JStr ''CREATE'')])\<close>
    by code_simp
  have c1: "decode_utf8 example_env (r_channel ?r1) = Inr ''/api/salads/123''" by (simp add: d)
  have c2: "decode_utf8 example_env (r_channel ?r2) = Inr ''/api/salads/123''" by (simp add: d)
  note t1 = producer_wire_object[OF c1, of
         \<open>''{"data": {"name": "tomato"}, "type": "CREATE"}''\<close>
         \<open>''{"data": {"name": "tomato"}, "type": "CREATE"}''\<close>
         "[(''data'', JObj [(''name'', JStr ''tomato'')]), (''type'', JStr ''CREATE'')]"
         "JObj [(''name'', JStr ''tomato'')]" "JStr ''CREATE''" ?s]
  note t2 = producer_wire_object[OF c2, of _ _ _ _ _ ?s]
  from t1 t2 d l
  show ?thesis by simp
qed

section \<open>Listing\<close>

text \<open>
  C9. In every state the main loop reaches from a new connection, through any sequence of
  client frames and broker events, \<^verbatim>\<open>ls\<close> replies with a list that is sorted in the
  lexicographic order of strings, has no duplicates, and has exactly the members of the
  current subscription set.
\<close>

theorem ls_replies_sorted_subscriptions:
  assumes "init ev path = Inr s0" and "handle ev s0 evs = Inr s"
  shows "\<exists>xs. ls s message = Inr (s\<lparr>ws_calls := ws_calls s @ [Send (JArr (map JStr xs))]\<rparr>)
            \<and> sorted xs \<and> distinct xs \<and> set xs = subscriptions s"
proof -
  from assms have "finite (subscriptions s)" by (rule finite_handle)
  then have "sorted (sorted_list_of_set (subscriptions s))
      \<and> distinct (sorted_list_of_set (subscriptions s))
      \<and> set (sorted_list_of_set (subscriptions s)) = subscriptions s"
    by simp
  then show ?thesis unfolding ls_def send_def by blast
qed

theorem ls_replies_sorted_subscriptions_witness:
  \<open>init accepting_env ''/api/salads/2/ws''
     = Inr \<lparr>subscriptions = {}, p_channels = {}, ws_calls = [],
            scheduled = [JObj [(''path'', JStr ''/api/salads/2'')]]\<rparr>
   \<and> handle accepting_env
        \<lparr>subscriptions = {}, p_channels = {}, ws_calls = [],
         scheduled = [JObj [(''path'', JStr ''/api/salads/2'')]]\<rparr>
        [Recv ''{"function": "subscribe", "path": "/api/salads/1"}'']
     = Inr \<lparr>subscriptions = {''/api/salads/1'', ''/api/salads/2''},
            p_channels = {''/api/salads/1'', ''/api/salads/2''}, ws_calls = [], scheduled = []\<rparr>
   \<and> (\<exists>xs. ls \<lparr>subscriptions = {''/api/salads/1'', ''/api/salads/2''},
                 p_channels = {''/api/salads/1'', ''/api/salads/2''}, ws_calls = [], scheduled = []\<rparr>
               (JObj [(''function'', JStr ''ls'')])
             = Inr \<lparr>subscriptions = {''/api/salads/1'', ''/api/salads/2''},
                 p_channels = {''/api/salads/1'', ''/api/salads/2''},
                 ws_calls = [Send (JArr (map JStr xs))], scheduled = []\<rparr>
           \<and> sorted xs \<and> distinct xs \<and> set xs = {''/api/salads/1'', ''/api/salads/2''})\<close>
proof -
  have h1: \<open>init accepting_env ''/api/salads/2/ws''
     = Inr \<lparr>subscriptions = {}, p_channels = {}, ws_calls = [],
            scheduled = [JObj [(''path'', JStr ''/api/salads/2'')]]\<rparr>\<close>
    by code_simp
  have h2: \<open>handle accepting_env
        \<lparr>subscriptions = {}, p_channels = {}, ws_calls = [],
         scheduled = [JObj [(''path'', JStr ''/api/salads/2'')]]\<rparr>
        [Recv ''{"function": "subscribe", "path": "/api/salads/1"}'']
     = Inr \<lparr>subscriptions = {''/api/salads/1'', ''/api/salads/2''},
            p_channels = {''/api/salads/1'', ''/api/salads/2''}, ws_calls = [], scheduled = []\<rparr>\<close>
    by code_simp
  from ls_replies_sorted_subscriptions[OF h1 h2, of "JObj [(''function'', JStr ''ls'')]"] h1 h2
  show ?thesis by simp
qed

section \<open>A command without a path\<close>

text \<open>
  C10. A frame that decodes to a dict whose \<^verbatim>\<open>function\<close> is \<^verbatim>\<open>subscribe\<close> or
  \<^verbatim>\<open>unsubscribe\<close> and that has no \<^verbatim>\<open>path\<close> key makes the dispatched method raise
  KeyError at \<^verbatim>\<open>message['path']\<close>: nothing is sent, the object is unchanged, and the
  exception leaves the consumer and the main loop.
\<close>

theorem consumer_missing_path_raises_KeyError:
  assumes "json_loads ev frame = Inr (JObj kvs)"
      and "map_of kvs ''function'' = Some (JStr name)"
      and "name = ''subscribe'' \<or> name = ''unsubscribe''"
      and "map_of kvs ''path'' = None"
  shows "consumer ev s frame = Inl (KeyError, s)
       \<and> loop ev s (Recv frame # evs) = Inl (KeyError, s)"
proof -
  have "consumer ev s frame = Inl (KeyError, s)"
    using assms
    by (auto simp: consumer_def function_names_def getattr_def subscribe_def unsubscribe_def)
  then show ?thesis by simp
qed

theorem consumer_missing_path_raises_KeyError_witness:
  \<open>json_loads example_env ''{"function": "subscribe"}'' = Inr (JObj [(''function'', JStr ''subscribe'')])
   \<and> map_of [(''function'', JStr ''subscribe'')] ''function'' = Some (JStr ''subscribe'')
   \<and> map_of [(''function'', JStr ''subscribe'')] ''path'' = None
   \<and> consumer example_env
         \<lparr>subscriptions = {}, p_channels = {}, ws_calls = [], scheduled = []\<rparr>
         ''{"function": "subscribe"}''
       = Inl (KeyError, \<lparr>subscriptions = {}, p_channels = {}, ws_calls = [], scheduled = []\<rparr>)
   \<and> loop example_env
         \<lparr>subscriptions = {}, p_channels = {}, ws_calls = [], scheduled = []\<rparr>
         [Recv ''{"function": "subscribe"}'', Recv ''{"function": "ls"}'']
       = Inl (KeyError, \<lparr>subscriptions = {}, p_channels = {}, ws_calls = [], scheduled = []\<rparr>)\<close>
proof -
  have l: \<open>json_loads example_env ''{"function": "subscribe"}''
             = Inr (JObj [(''function'', JStr ''subscribe'')])\<close>
    by code_simp
  have f: "map_of [(''function'', JStr ''subscribe'')] ''function'' = Some (JStr ''subscribe'')"
    by simp
  have p: "map_of [(''function'', JStr ''subscribe'')] ''path'' = None" by simp
  have n: "''subscribe'' = ''subscribe'' \<or> ''subscribe'' = ''unsubscribe''" by simp
  from consumer_missing_path_raises_KeyError[OF l f n p] l f p
  show ?thesis by blast
qed

end
